theory Spec2Isabelle
  imports Main
begin

section \<open>Reservation form (NovaReserva): values, schema and submission\<close>

subsection \<open>JavaScript values used by the form\<close>

text \<open>
  A JavaScript \<open>Date\<close> is either a point in time, kept here as the local calendar day
  and the milliseconds into that day, or the invalid date whose \<open>getTime()\<close> is NaN.
\<close>

datatype Date = ValidDate int nat | InvalidDate

text \<open>
  \<open>toDateString()\<close> prints the local calendar day and drops the time of day; on the
  invalid date it prints "Invalid Date". Two such strings are equal exactly when the
  values below are, so the day number (or \<open>None\<close>) stands for the string.
\<close>

fun toDateString :: "Date \<Rightarrow> int option" where
  "toDateString (ValidDate day ms) = Some day"
| "toDateString InvalidDate = None"

text \<open>
  A string is the list of its code units; the times and literals compared here are
  ASCII. The relational operators on two strings compare code units from the left; a
  proper prefix is smaller. \<open>a >= b\<close> is the negation of \<open>a < b\<close>, and \<open>a <= b\<close> the
  negation of \<open>b < a\<close>.
\<close>

fun str_less :: "string \<Rightarrow> string \<Rightarrow> bool" where
  "str_less [] [] = False"
| "str_less [] (y # ys) = True"
| "str_less (x # xs) [] = False"
| "str_less (x # xs) (y # ys) =
     (if (of_char x :: nat) < of_char y then True
      else if (of_char y :: nat) < of_char x then False
      else str_less xs ys)"

definition str_ge :: "string \<Rightarrow> string \<Rightarrow> bool" where
  "str_ge a b = (\<not> str_less a b)"

definition str_le :: "string \<Rightarrow> string \<Rightarrow> bool" where
  "str_le a b = (\<not> str_less b a)"

text \<open>\<open>s.split(sep)\<close> for a one-character separator; the empty string gives one empty piece.\<close>

fun split_str :: "char \<Rightarrow> string \<Rightarrow> string list" where
  "split_str sep [] = ['''']"
| "split_str sep (c # cs) =
     (if c = sep then [] # split_str sep cs
      else (case split_str sep cs of
              [] \<Rightarrow> [c # []]
            | p # ps \<Rightarrow> (c # p) # ps))"

text \<open>The value of a decimal digit: its position in the digit string.\<close>

definition digitValue :: "char \<Rightarrow> nat option" where
  "digitValue c = map_of (zip ''0123456789'' [0, 1, 2, 3, 4, 5, 6, 7, 8, 9]) c"

fun decimal :: "nat \<Rightarrow> string \<Rightarrow> nat option" where
  "decimal acc [] = Some acc"
| "decimal acc (c # cs) =
     (case digitValue c of
        None \<Rightarrow> None
      | Some d \<Rightarrow> decimal (10 * acc + d) cs)"

text \<open>
  \<open>Number(s)\<close> on a non-empty string of decimal digits, which is all the time pattern
  of the schema lets through. \<open>None\<close> stands for every other argument (NaN, and the
  signed, fractional, padded or empty literals that are not modelled).
\<close>

definition Number :: "string \<Rightarrow> nat option" where
  "Number s = (if s = [] then None else decimal 0 s)"

subsection \<open>Form values\<close>

text \<open>
  The form's fields. The raw input has \<open>date\<close> undefined until a day is picked
  (\<open>Date option\<close>); the value the schema hands to \<open>onSubmit\<close> has a \<open>Date\<close>.
\<close>

record 'd Form =
  date :: 'd
  startTime :: string
  endTime :: string
  selectedEquipment :: "string list"
  location :: string
  purpose :: string

type_synonym FormInput = "Date option Form"
type_synonym FormValues = "Date Form"

subsection \<open>formSchema\<close>

definition isDigit :: "char \<Rightarrow> bool" where
  "isDigit c = (c \<in> set ''0123456789'')"

text \<open>The pattern \<open>/^(0[7-9]|1[0-9]):[0-5]\d$/\<close>: five characters, anchored at both ends.\<close>

fun timeRegex :: "string \<Rightarrow> bool" where
  "timeRegex [h1, h2, c, m1, m2] =
     (((h1 = CHR ''0'' \<and> h2 \<in> set ''789'') \<or> (h1 = CHR ''1'' \<and> isDigit h2))
      \<and> c = CHR '':'' \<and> m1 \<in> set ''012345'' \<and> isDigit m2)"
| "timeRegex s = False"

text \<open>
  \<open>const [h, m] = time.split(':').map(Number)\<close>: the first two pieces, as numbers.
\<close>

definition hoursMinutes :: "string \<Rightarrow> (nat \<times> nat) option" where
  "hoursMinutes time =
     (case split_str CHR '':'' time of
        h # m # rest \<Rightarrow>
          (case (Number h, Number m) of
             (Some hv, Some mv) \<Rightarrow> Some (hv, mv)
           | _ \<Rightarrow> None)
      | _ \<Rightarrow> None)"

text \<open>\<open>h * 60 + m\<close>, the minutes since midnight that the first refinement compares.\<close>

definition timeMinutes :: "string \<Rightarrow> nat option" where
  "timeMinutes time =
     (case hoursMinutes time of
        None \<Rightarrow> None
      | Some (h, m) \<Rightarrow> Some (h * 60 + m))"

text \<open>First refinement: the start lies strictly before the end.\<close>

definition refineOrder :: "string \<Rightarrow> string \<Rightarrow> bool" where
  "refineOrder start end' =
     (case (hoursMinutes start, hoursMinutes end') of
        (Some (startH, startM), Some (endH, endM)) \<Rightarrow>
          startH * 60 + startM < endH * 60 + endM
      | _ \<Rightarrow> False)"

text \<open>Second refinement: the hours lie in the business day.\<close>

definition refineHours :: "string \<Rightarrow> string \<Rightarrow> bool" where
  "refineHours start end' =
     (case (hoursMinutes start, hoursMinutes end') of
        (Some (startH, startM), Some (endH, endM)) \<Rightarrow>
          (startH \<ge> 7 \<and> startH < 19) \<and> (endH > 7 \<and> endH \<le> 19)
      | _ \<Rightarrow> False)"

text \<open>
  The schema accepts a raw input when no check reports an issue: the date is a valid
  \<open>Date\<close>, both times match the pattern, at least one piece of equipment is selected,
  the location is not empty, the purpose has at least ten characters, and both
  refinements hold. On acceptance it returns the parsed values.
\<close>

definition formSchema :: "FormInput \<Rightarrow> FormValues option" where
  "formSchema data =
     (case date data of
        None \<Rightarrow> None
      | Some InvalidDate \<Rightarrow> None
      | Some (ValidDate day ms) \<Rightarrow>
          if timeRegex (startTime data) \<and> timeRegex (endTime data)
             \<and> length (selectedEquipment data) \<ge> 1
             \<and> length (location data) \<ge> 1
             \<and> length (purpose data) \<ge> 10
             \<and> refineOrder (startTime data) (endTime data)
             \<and> refineHours (startTime data) (endTime data)
          then Some \<lparr>date = ValidDate day ms, startTime = startTime data,
                      endTime = endTime data,
                      selectedEquipment = selectedEquipment data,
                      location = location data, purpose = purpose data\<rparr>
          else None)"

subsection \<open>Submission: onSubmit\<close>

datatype Status = pending | approved | rejected | in_progress | completed | canceled

record Equipment =
  eq_id :: string
  eq_type :: string
  eq_name :: string

text \<open>The signed-in user; \<open>displayName\<close> and \<open>email\<close> may be null.\<close>

record User =
  uid :: string
  displayName :: "string option"
  email :: "string option"

text \<open>One entry of the sequence \<open>checkConflicts\<close> resolves to, as the handler reads it.\<close>

record ConflictItem =
  equipmentName :: string
  conflictStartTime :: string
  conflictEndTime :: string

text \<open>The argument of \<open>checkConflicts\<close> and the argument of \<open>addReservation\<close>.\<close>

record CheckArgs =
  chk_date :: Date
  chk_startTime :: string
  chk_endTime :: string
  chk_equipmentIds :: "string list"

record NewReservation =
  res_date :: Date
  res_startTime :: string
  res_endTime :: string
  res_location :: string
  res_purpose :: string
  res_equipmentIds :: "string list"
  res_equipmentQuantities :: "string \<rightharpoonup> nat"
  res_userName :: string
  res_userEmail :: string
  res_userId :: string
  res_status :: Status

text \<open>The component's state that the handler reads.\<close>

record Component =
  currentUser :: "User option"
  availableDates :: "Date list"
  equipment :: "Equipment list"

text \<open>
  How the three awaited calls settle: \<open>checkConflicts\<close> resolves to a sequence or
  rejects (\<open>None\<close>); \<open>addReservation\<close> and \<open>sendAdminNotification\<close> resolve or reject.
\<close>

record Awaited =
  conflictsResult :: "ConflictItem list option"
  addReservationOk :: bool
  sendAdminNotificationOk :: bool

text \<open>What the handler does to the outside, in order.\<close>

datatype Effect =
    SetIsSubmitting bool
  | CheckConflicts CheckArgs
  | ToastConflicts "ConflictItem list"
  | AddReservation NewReservation
  | ToastSuccess string
  | FormReset
  | SendAdminNotification string string
  | ToastError string

definition isDateAvailable :: "Date list \<Rightarrow> Date \<Rightarrow> bool" where
  "isDateAvailable dates d =
     list_ex (\<lambda>availableDate. toDateString availableDate = toDateString d) dates"

text \<open>\<open>x?.field || fallback\<close>: null, undefined and the empty string give the fallback.\<close>

definition orElse :: "string option \<Rightarrow> string \<Rightarrow> string" where
  "orElse v fallback =
     (case v of None \<Rightarrow> fallback | Some s \<Rightarrow> if s = [] then fallback else s)"

definition userDisplayName :: "User option \<Rightarrow> string option" where
  "userDisplayName u = (case u of None \<Rightarrow> None | Some x \<Rightarrow> displayName x)"

definition userEmail :: "User option \<Rightarrow> string option" where
  "userEmail u = (case u of None \<Rightarrow> None | Some x \<Rightarrow> email x)"

definition userUid :: "User option \<Rightarrow> string option" where
  "userUid u = (case u of None \<Rightarrow> None | Some x \<Rightarrow> Some (uid x))"

text \<open>The reduce over the selected identifiers: one more for the type of each known one.\<close>

definition countEquipment ::
  "Equipment list \<Rightarrow> (string \<rightharpoonup> nat) \<Rightarrow> string \<Rightarrow> (string \<rightharpoonup> nat)" where
  "countEquipment equipmentList acc equipId =
     (case find (\<lambda>e. eq_id e = equipId) equipmentList of
        None \<Rightarrow> acc
      | Some equip \<Rightarrow>
          acc(eq_type equip \<mapsto> (case acc (eq_type equip) of None \<Rightarrow> 0 | Some n \<Rightarrow> n) + 1))"

definition equipmentQuantities :: "Equipment list \<Rightarrow> string list \<Rightarrow> (string \<rightharpoonup> nat)" where
  "equipmentQuantities equipmentList selected =
     foldl (countEquipment equipmentList) Map.empty selected"

text \<open>The flag computed once the conflict guard has been passed.\<close>

definition autoApproved :: "Date list \<Rightarrow> FormValues \<Rightarrow> bool" where
  "autoApproved dates values =
     (isDateAvailable dates (date values)
      \<and> str_ge (startTime values) ''07:00''
      \<and> str_le (endTime values) ''19:00'')"

text \<open>The user-facing texts are kept without their accents.\<close>

definition defaultUserName :: string where
  "defaultUserName = ''Usuario''"

definition processingError :: string where
  "processingError = ''Erro ao processar reserva''"

definition newReservation :: "Component \<Rightarrow> FormValues \<Rightarrow> NewReservation" where
  "newReservation c values =
     \<lparr>res_date = date values,
      res_startTime = startTime values,
      res_endTime = endTime values,
      res_location = location values,
      res_purpose = purpose values,
      res_equipmentIds = selectedEquipment values,
      res_equipmentQuantities = equipmentQuantities (equipment c) (selectedEquipment values),
      res_userName = orElse (userDisplayName (currentUser c)) defaultUserName,
      res_userEmail = orElse (userEmail (currentUser c)) ''email@exemplo.com'',
      res_userId = orElse (userUid (currentUser c)) [],
      res_status = (if autoApproved (availableDates c) values then approved else pending)\<rparr>"

text \<open>
  The handler. A rejected await jumps to the catch block, which shows the error toast;
  the finally block clears the submitting flag on every path, also after the early
  return on conflicts.
\<close>

definition onSubmit :: "Component \<Rightarrow> Awaited \<Rightarrow> FormValues \<Rightarrow> Effect list" where
  "onSubmit c aw values =
     [SetIsSubmitting True,
      CheckConflicts \<lparr>chk_date = date values, chk_startTime = startTime values,
                      chk_endTime = endTime values,
                      chk_equipmentIds = selectedEquipment values\<rparr>]
     @ (case conflictsResult aw of
          None \<Rightarrow> [ToastError processingError]
        | Some conflicts \<Rightarrow>
            if length conflicts > 0 then [ToastConflicts conflicts]
            else
              AddReservation (newReservation c values)
              # (if \<not> addReservationOk aw then [ToastError processingError]
                 else
                   [ToastSuccess (if autoApproved (availableDates c) values
                                  then ''Reserva aprovada automaticamente!''
                                  else ''Solicitacao enviada para aprovacao''),
                    FormReset,
                    SendAdminNotification ''Reserva''
                      (orElse (userDisplayName (currentUser c)) defaultUserName)]
                   @ (if sendAdminNotificationOk aw then []
                      else [ToastError processingError])))
     @ [SetIsSubmitting False]"

text \<open>The reservations handed to \<open>addReservation\<close>, the handler's only write to the store.\<close>

fun persisted :: "Effect list \<Rightarrow> NewReservation list" where
  "persisted [] = []"
| "persisted (AddReservation r # es) = r # persisted es"
| "persisted (e # es) = persisted es"

text \<open>The admin notifications sent.\<close>

fun notified :: "Effect list \<Rightarrow> (string \<times> string) list" where
  "notified [] = []"
| "notified (SendAdminNotification kind name # es) = (kind, name) # notified es"
| "notified (e # es) = notified es"

text \<open>
  The decision the handler takes on a resolved conflict check: none when there are
  conflicts (it returns before deciding), otherwise the flag \<open>autoApproved\<close>, which
  becomes the status of the reservation it stores.
\<close>

datatype Decision = Approved | PendingReview

definition onSubmitDecision ::
  "Date list \<Rightarrow> FormValues \<Rightarrow> ConflictItem list \<Rightarrow> Decision option" where
  "onSubmitDecision dates values conflicts =
     (if length conflicts > 0 then None
      else Some (if autoApproved dates values then Approved else PendingReview))"

section \<open>Purchase requests (ComprasFinanceiro): changing the status\<close>

text \<open>The fields of a request that the status change reads or writes.\<close>

record RequestData =
  req_id :: string
  collectionName :: string
  req_userEmail :: string
  req_status :: Status

text \<open>The value of a status as the string the code stores and prints.\<close>

fun statusString :: "Status \<Rightarrow> string" where
  "statusString pending = ''pending''"
| "statusString approved = ''approved''"
| "statusString rejected = ''rejected''"
| "statusString in_progress = ''in-progress''"
| "statusString completed = ''completed''"
| "statusString canceled = ''canceled''"

record Notification =
  ntf_title :: string
  ntf_message :: string
  ntf_link :: string
  ntf_readBy :: "string list"
  ntf_recipients :: "string list"
  ntf_isBatch :: bool

datatype Toast = ToastOk string | ToastFail string

text \<open>
  The page's state together with what it acts on: the documents of the store by
  collection and identifier, the notifications created, the toasts shown and the number
  of times the request list was invalidated.
\<close>

record Admin =
  selectedRequest :: "RequestData option"
  newStatus :: Status
  docs :: "(string \<times> string) \<rightharpoonup> RequestData"
  notifications :: "Notification list"
  toasts :: "Toast list"
  invalidations :: nat

text \<open>How the two awaited calls settle when nothing in the model makes them reject.\<close>

record AdminAwaited =
  updateDocOk :: bool
  createNotificationOk :: bool

text \<open>The six items of the status select, and its change handler.\<close>

definition statusItems :: "Status list" where
  "statusItems = [pending, approved, rejected, in_progress, completed, canceled]"

definition onValueChange :: "Status \<Rightarrow> Admin \<Rightarrow> Admin" where
  "onValueChange v st = st\<lparr>newStatus := v\<rparr>"

text \<open>
  \<open>updateDoc(ref, {status})\<close> of the document store: it writes the one field of an
  existing document and rejects when there is no such document.
\<close>

definition updateDoc ::
  "((string \<times> string) \<rightharpoonup> RequestData) \<Rightarrow> string \<times> string \<Rightarrow> Status
     \<Rightarrow> ((string \<times> string) \<rightharpoonup> RequestData) option" where
  "updateDoc d ref s =
     (case d ref of
        None \<Rightarrow> None
      | Some r \<Rightarrow> Some (d(ref \<mapsto> r\<lparr>req_status := s\<rparr>)))"

definition statusNotification :: "RequestData \<Rightarrow> Status \<Rightarrow> Notification" where
  "statusNotification req s =
     \<lparr>ntf_title = ''Alteracao de Status'',
      ntf_message = ''Status da sua solicitacao de compra foi alterado para: '' @ statusString s,
      ntf_link = ''minhas-solicitacoes'',
      ntf_readBy = [],
      ntf_recipients = [req_userEmail req],
      ntf_isBatch = False\<rparr>"

definition updateError :: Toast where
  "updateError = ToastFail ''Erro ao atualizar''"

text \<open>
  The handler of the update button. It returns at once without a selected request or
  with a falsy status (the empty string); a rejected await jumps to the catch block.
\<close>

definition handleStatusChange :: "AdminAwaited \<Rightarrow> Admin \<Rightarrow> Admin" where
  "handleStatusChange aw st =
     (case selectedRequest st of
        None \<Rightarrow> st
      | Some req \<Rightarrow>
          if statusString (newStatus st) = [] then st
          else if \<not> updateDocOk aw then st\<lparr>toasts := toasts st @ [updateError]\<rparr>
          else
            (case updateDoc (docs st) (collectionName req, req_id req) (newStatus st) of
               None \<Rightarrow> st\<lparr>toasts := toasts st @ [updateError]\<rparr>
             | Some d \<Rightarrow>
                 if \<not> createNotificationOk aw
                 then st\<lparr>docs := d, toasts := toasts st @ [updateError]\<rparr>
                 else st\<lparr>docs := d,
                         notifications :=
                           notifications st @ [statusNotification req (newStatus st)],
                         toasts := toasts st @ [ToastOk ''Status atualizado''],
                         invalidations := invalidations st + 1,
                         selectedRequest := Some (req\<lparr>req_status := newStatus st\<rparr>)\<rparr>))"

section \<open>Admin chat (ChatAdmin): who may edit or delete a message\<close>

text \<open>
  The fields of a message that the check reads; \<open>userId\<close> and \<open>isDeleted\<close> may be
  missing (undefined).
\<close>

record MessageData =
  msg_id :: string
  msg_userId :: "string option"
  isDeleted :: "bool option"

text \<open>Truthiness of an optional boolean: undefined and false are falsy.\<close>

definition truthy :: "bool option \<Rightarrow> bool" where
  "truthy b = (case b of None \<Rightarrow> False | Some v \<Rightarrow> v)"

text \<open>
  \<open>currentUser && message.userId === currentUser.uid && !message.isDeleted\<close>, read
  for its truthiness, as the JSX does.
\<close>

definition canEditOrDelete :: "User option \<Rightarrow> MessageData \<Rightarrow> bool" where
  "canEditOrDelete user message =
     (case user of
        None \<Rightarrow> False
      | Some u \<Rightarrow> msg_userId message = Some (uid u) \<and> \<not> truthy (isDeleted message))"

text \<open>The options menu rendered for one message of the list: both items or nothing.\<close>

datatype MenuItem = Editar | Apagar

definition messageMenu :: "User option \<Rightarrow> MessageData \<Rightarrow> MenuItem list" where
  "messageMenu user msg = (if canEditOrDelete user msg then [Editar, Apagar] else [])"

section \<open>Availability engine\<close>

text \<open>
  The engine's conflict check is the service function \<open>checkConflicts\<close>, which the form
  imports and whose body is not among the sources. The definitions of this section
  follow the specification of the engine.
\<close>

text \<open>
  Modelled from the spec: the ReservationWindow of the data model (the body of
  \<open>checkConflicts\<close> and its types are missing). The date is a day number, the minutes
  are integers and the set of resource identifiers is kept as a list.
\<close>

record ReservationWindow =
  w_date :: int
  startMinute :: int
  endMinute :: int
  resourceIds :: "string list"
  status :: Status

text \<open>
  Modelled from the spec: a Conflict carries the resource identifier, the conflicting
  window's time range and the caller's label for the resource.
\<close>

record Conflict =
  resourceId :: string
  rangeStart :: int
  rangeEnd :: int
  resourceLabel :: string

text \<open>Modelled from the spec: the only error kind of the engine.\<close>

datatype EngineError = InvalidWindow

text \<open>Modelled from the spec: the blocking statuses are pending and approved.\<close>

definition blocking :: "Status \<Rightarrow> bool" where
  "blocking s = (s = pending \<or> s = approved)"

text \<open>
  Modelled from the spec: half-open overlap of the minute ranges,
  \<open>candidate.startMinute < other.endMinute AND other.startMinute < candidate.endMinute\<close>.
\<close>

definition overlaps :: "ReservationWindow \<Rightarrow> ReservationWindow \<Rightarrow> bool" where
  "overlaps candidate other =
     (startMinute candidate < endMinute other \<and> startMinute other < endMinute candidate)"

text \<open>Modelled from the spec: the resource identifiers the two windows share, each once.\<close>

definition sharedResources :: "ReservationWindow \<Rightarrow> ReservationWindow \<Rightarrow> string list" where
  "sharedResources candidate other =
     filter (\<lambda>r. r \<in> set (resourceIds other)) (remdups (resourceIds candidate))"

text \<open>
  Modelled from the spec: step 1 of findConflicts keeps the windows of the candidate's
  date with a blocking status and a shared resource.
\<close>

definition survives :: "ReservationWindow \<Rightarrow> ReservationWindow \<Rightarrow> bool" where
  "survives candidate other =
     (w_date other = w_date candidate \<and> blocking (status other)
      \<and> sharedResources candidate other \<noteq> [])"

text \<open>Modelled from the spec: step 3 emits one Conflict per shared resource identifier.\<close>

definition emitConflicts ::
  "(string \<Rightarrow> string) \<Rightarrow> ReservationWindow \<Rightarrow> ReservationWindow \<Rightarrow> Conflict list" where
  "emitConflicts label candidate other =
     map (\<lambda>r. \<lparr>resourceId = r, rangeStart = startMinute other,
                rangeEnd = endMinute other, resourceLabel = label r\<rparr>)
         (sharedResources candidate other)"

text \<open>
  Modelled from the spec: findConflicts fails with InvalidWindow on a candidate of
  non-positive duration or without resources; otherwise it filters the existing windows
  (step 1), keeps those that overlap the candidate (step 2) and emits their conflicts
  (step 3). The label function is the caller's resource lookup.
\<close>

definition findConflicts ::
  "(string \<Rightarrow> string) \<Rightarrow> ReservationWindow \<Rightarrow> ReservationWindow list
     \<Rightarrow> EngineError + Conflict list" where
  "findConflicts label candidate existing =
     (if startMinute candidate \<ge> endMinute candidate then Inl InvalidWindow
      else if resourceIds candidate = [] then Inl InvalidWindow
      else Inr (concat (map (emitConflicts label candidate)
                  (filter (overlaps candidate) (filter (survives candidate) existing)))))"

text \<open>
  The candidate window of a submitted form: the day of its date, its two times in
  minutes as the schema's refinement reads them, and the selected equipment as resources.
  It is not stored yet; the status it carries plays no part in the check.
\<close>

definition candidateWindow :: "FormValues \<Rightarrow> ReservationWindow option" where
  "candidateWindow values =
     (case (toDateString (date values), timeMinutes (startTime values),
            timeMinutes (endTime values)) of
        (Some day, Some s, Some e) \<Rightarrow>
          Some \<lparr>w_date = day, startMinute = int s, endMinute = int e,
                resourceIds = selectedEquipment values, status = pending\<rparr>
      | _ \<Rightarrow> None)"

text \<open>
  Modelled from the spec: the invariant of the data model, with which the result of
  findConflicts is compared. A candidate and an existing window conflict when they have
  the same date, the existing one has a blocking status, they share a resource
  identifier and their minute ranges overlap.
\<close>

definition conflictsWith :: "ReservationWindow \<Rightarrow> ReservationWindow \<Rightarrow> bool" where
  "conflictsWith candidate other =
     (w_date other = w_date candidate
      \<and> (status other = pending \<or> status other = approved)
      \<and> (\<exists>r \<in> set (resourceIds candidate). r \<in> set (resourceIds other))
      \<and> startMinute candidate < endMinute other
      \<and> startMinute other < endMinute candidate)"

section \<open>Sample inputs\<close>

text \<open>A booking of one projector from 08:00 to 09:00 on day 20157, before and after parsing.\<close>

definition sampleInput :: FormInput where
  "sampleInput =
     \<lparr>date = Some (ValidDate 20157 36000000), startTime = ''08:00'', endTime = ''09:00'',
      selectedEquipment = [''projector1''], location = ''Biblioteca'',
      purpose = ''Aula de ciencias''\<rparr>"

definition sampleValues :: FormValues where
  "sampleValues =
     \<lparr>date = ValidDate 20157 36000000, startTime = ''08:00'', endTime = ''09:00'',
      selectedEquipment = [''projector1''], location = ''Biblioteca'',
      purpose = ''Aula de ciencias''\<rparr>"

definition sampleComponent :: Component where
  "sampleComponent =
     \<lparr>currentUser = Some \<lparr>uid = ''u1'', displayName = Some ''Ana'', email = None\<rparr>,
      availableDates = [ValidDate 20157 0],
      equipment = [\<lparr>eq_id = ''projector1'', eq_type = ''projector'', eq_name = ''Projetor 1''\<rparr>]\<rparr>"

definition sampleConflict :: ConflictItem where
  "sampleConflict =
     \<lparr>equipmentName = ''Projetor 1'', conflictStartTime = ''08:30'',
      conflictEndTime = ''09:30''\<rparr>"

text \<open>The scenario of the specification: an approved booking of projector1 from 540 to 600.\<close>

definition sampleExisting :: ReservationWindow where
  "sampleExisting =
     \<lparr>w_date = 20157, startMinute = 540, endMinute = 600,
      resourceIds = [''projector1''], status = approved\<rparr>"

definition sampleCandidate :: ReservationWindow where
  "sampleCandidate =
     \<lparr>w_date = 20157, startMinute = 570, endMinute = 630,
      resourceIds = [''projector1''], status = pending\<rparr>"

text \<open>A completed purchase request, selected on the admin page.\<close>

definition sampleRequest :: RequestData where
  "sampleRequest =
     \<lparr>req_id = ''r1'', collectionName = ''purchases'', req_userEmail = ''ana@exemplo.com'',
      req_status = completed\<rparr>"

definition sampleAdmin :: Admin where
  "sampleAdmin =
     \<lparr>selectedRequest = Some sampleRequest, newStatus = pending,
      docs = [(''purchases'', ''r1'') \<mapsto> sampleRequest],
      notifications = [], toasts = [], invalidations = 0\<rparr>"

section \<open>Properties of the reservation form\<close>

subsection \<open>Times accepted by the pattern\<close>

lemma timeRegex_shape:
  "timeRegex s \<Longrightarrow> \<exists>h1 h2 m1 m2. s = [h1, h2, CHR '':'', m1, m2]
     \<and> ((h1 = CHR ''0'' \<and> h2 \<in> set ''789'') \<or> (h1 = CHR ''1'' \<and> isDigit h2))
     \<and> m1 \<in> set ''012345'' \<and> isDigit m2"
  by (erule timeRegex.elims) auto

lemma digitValue_of_char:
  "digitValue c = Some d \<Longrightarrow> d \<le> 9 \<and> of_char c = 48 + d \<and> c \<noteq> CHR '':''"
  by (auto simp: digitValue_def split: if_splits)

lemma timeRegex_digits:
  assumes "timeRegex s"
  obtains h1 h2 m1 m2 a b c d where
    "s = [h1, h2, CHR '':'', m1, m2]"
    "digitValue h1 = Some a" "digitValue h2 = Some b"
    "digitValue m1 = Some c" "digitValue m2 = Some d"
    "7 \<le> 10 * a + b" "10 * a + b \<le> 19" "a \<le> 1" "b \<le> 9" "c \<le> 5" "d \<le> 9"
proof -
  from timeRegex_shape [OF assms] obtain h1 h2 m1 m2 where
    s: "s = [h1, h2, CHR '':'', m1, m2]"
    and h: "(h1 = CHR ''0'' \<and> h2 \<in> set ''789'') \<or> (h1 = CHR ''1'' \<and> isDigit h2)"
    and m1: "m1 \<in> set ''012345''" and m2: "isDigit m2"
    by blast
  from h obtain a b where "digitValue h1 = Some a" "digitValue h2 = Some b"
    "7 \<le> 10 * a + b" "10 * a + b \<le> 19" "a \<le> 1" "b \<le> 9"
    by (auto simp: digitValue_def isDigit_def)
  moreover from m1 obtain c where "digitValue m1 = Some c" "c \<le> 5"
    by (auto simp: digitValue_def)
  moreover from m2 obtain d where "digitValue m2 = Some d" "d \<le> 9"
    by (auto simp: digitValue_def isDigit_def)
  ultimately show thesis using s that by blast
qed

lemma hoursMinutes_digits:
  assumes "digitValue h1 = Some a" "digitValue h2 = Some b"
    "digitValue m1 = Some c" "digitValue m2 = Some d"
  shows "hoursMinutes [h1, h2, CHR '':'', m1, m2] = Some (10 * a + b, 10 * c + d)"
  using assms digitValue_of_char [of h1 a] digitValue_of_char [of h2 b]
    digitValue_of_char [of m1 c] digitValue_of_char [of m2 d]
  by (simp add: hoursMinutes_def Number_def)

text \<open>
  On a time that matches the pattern, the hour lies between 7 and 19, the comparison
  with the string 07:00 always succeeds, and the comparison with the string 19:00 agrees
  with the comparison of the minutes with 1140.
\<close>

lemma timeRegex_hoursMinutes:
  assumes "timeRegex s"
  shows "\<exists>h m. hoursMinutes s = Some (h, m) \<and> 7 \<le> h \<and> h \<le> 19 \<and> m \<le> 59
     \<and> str_ge s ''07:00'' \<and> (str_le s ''19:00'' \<longleftrightarrow> h * 60 + m \<le> 1140)"
proof -
  from assms obtain h1 h2 m1 m2 a b c d where
    s: "s = [h1, h2, CHR '':'', m1, m2]"
    and dv: "digitValue h1 = Some a" "digitValue h2 = Some b"
    "digitValue m1 = Some c" "digitValue m2 = Some d"
    and bounds: "7 \<le> 10 * a + b" "10 * a + b \<le> 19" "a \<le> 1" "b \<le> 9" "c \<le> 5" "d \<le> 9"
    by (rule timeRegex_digits)
  have hm: "hoursMinutes s = Some (10 * a + b, 10 * c + d)"
    unfolding s using dv by (rule hoursMinutes_digits)
  have oc: "of_char h1 = 48 + a" "of_char h2 = 48 + b" "of_char m1 = 48 + c" "of_char m2 = 48 + d"
    using dv digitValue_of_char by blast+
  have ge: "str_ge s ''07:00''"
    unfolding s str_ge_def using oc bounds by auto
  have le: "str_le s ''19:00'' \<longleftrightarrow> (10 * a + b) * 60 + (10 * c + d) \<le> 1140"
    unfolding s str_le_def using oc bounds by auto
  show ?thesis using hm ge le bounds by auto
qed

lemma timeRegex_minutes:
  assumes "timeRegex s"
  shows "\<exists>n. timeMinutes s = Some n \<and> 420 \<le> n \<and> str_ge s ''07:00''
     \<and> (str_le s ''19:00'' \<longleftrightarrow> n \<le> 1140)"
proof -
  from timeRegex_hoursMinutes [OF assms] obtain h m where
    "hoursMinutes s = Some (h, m)" "7 \<le> h" "str_ge s ''07:00''"
    "str_le s ''19:00'' \<longleftrightarrow> h * 60 + m \<le> 1140"
    by blast
  then show ?thesis by (simp add: timeMinutes_def)
qed

subsection \<open>What the schema accepts\<close>

lemma formSchema_Some:
  assumes "formSchema data = Some v"
  shows "timeRegex (startTime v)" "timeRegex (endTime v)"
    "selectedEquipment v \<noteq> []"
    "refineOrder (startTime v) (endTime v)"
    "refineHours (startTime v) (endTime v)"
    "\<exists>day ms. date v = ValidDate day ms"
  using assms
  by (auto simp: formSchema_def split: option.splits Date.splits if_splits)

lemma refineOrder_minutes:
  assumes "refineOrder a b"
  shows "\<exists>s e. timeMinutes a = Some s \<and> timeMinutes b = Some e \<and> s < e"
  using assms
  by (auto simp: refineOrder_def timeMinutes_def split: option.splits prod.splits)

lemma sampleInput_accepted: "formSchema sampleInput = Some sampleValues"
  by (simp add: sampleInput_def sampleValues_def formSchema_def refineOrder_def
      refineHours_def hoursMinutes_def Number_def digitValue_def isDigit_def)

lemma sampleValues_minutes:
  "timeMinutes (startTime sampleValues) = Some 480"
  "timeMinutes (endTime sampleValues) = Some 540"
  by (simp_all add: sampleValues_def timeMinutes_def hoursMinutes_def Number_def
      digitValue_def)

lemma sampleValues_autoApproved:
  "autoApproved (availableDates sampleComponent) sampleValues"
  by (simp add: sampleValues_def sampleComponent_def autoApproved_def isDateAvailable_def
      str_ge_def str_le_def)

text \<open>
  The handler compares the time strings, not the minutes. Off the pattern the two
  differ: the string 1:00 is not below 07:00, while its minutes are below 420. The
  schema never lets such a time reach the handler.
\<close>

lemma string_comparison_off_pattern:
  "str_ge ''1:00'' ''07:00'' \<and> timeMinutes ''1:00'' = Some 60 \<and> \<not> timeRegex ''1:00''"
  by (simp add: str_ge_def timeMinutes_def hoursMinutes_def Number_def digitValue_def)

subsection \<open>The auto-approval decision\<close>

text \<open>
  C1, as stated, fails on a submission with conflicts: the handler returns before any
  decision, so the decision is not PendingReview and nothing is stored. The sample
  booking is accepted by the schema and would be approved without the conflict.
\<close>

theorem decision_on_conflict_counterexample:
  "formSchema sampleInput = Some sampleValues
   \<and> onSubmitDecision (availableDates sampleComponent) sampleValues [sampleConflict]
       \<noteq> Some PendingReview
   \<and> persisted (onSubmit sampleComponent
        \<lparr>conflictsResult = Some [sampleConflict], addReservationOk = True,
         sendAdminNotificationOk = True\<rparr> sampleValues) = []"
  by (simp add: sampleInput_accepted onSubmitDecision_def onSubmit_def)

text \<open>
  C1, amended: for every form value accepted by the schema, with the times read in
  minutes, the decision is Approved if and only if the conflict check returned an empty
  sequence, the date is in the calendar of open dates, the start is at or after minute
  420 and the end is at or before minute 1140; with an empty conflict sequence and the
  date or the end time failing, the decision is PendingReview; with a non-empty
  conflict sequence no decision is taken.
\<close>

theorem auto_approval_decision:
  assumes "formSchema data = Some v"
  shows "\<exists>s e. timeMinutes (startTime v) = Some s \<and> timeMinutes (endTime v) = Some e
     \<and> onSubmitDecision dates v conflicts =
         (if conflicts \<noteq> [] then None
          else if isDateAvailable dates (date v) \<and> 420 \<le> s \<and> e \<le> 1140
          then Some Approved else Some PendingReview)
     \<and> (onSubmitDecision dates v conflicts = Some Approved \<longleftrightarrow>
          conflicts = [] \<and> isDateAvailable dates (date v) \<and> 420 \<le> s \<and> e \<le> 1140)"
proof -
  from timeRegex_minutes [OF formSchema_Some(1) [OF assms]] obtain s where
    s: "timeMinutes (startTime v) = Some s" "420 \<le> s" "str_ge (startTime v) ''07:00''"
    by blast
  from timeRegex_minutes [OF formSchema_Some(2) [OF assms]] obtain e where
    e: "timeMinutes (endTime v) = Some e" "str_le (endTime v) ''19:00'' \<longleftrightarrow> e \<le> 1140"
    by blast
  have "autoApproved dates v \<longleftrightarrow> isDateAvailable dates (date v) \<and> 420 \<le> s \<and> e \<le> 1140"
    using s e by (simp add: autoApproved_def)
  then show ?thesis using s(1) e(1) by (simp add: onSubmitDecision_def)
qed

theorem auto_approval_decision_witness:
  "formSchema sampleInput = Some sampleValues
   \<and> onSubmitDecision [ValidDate 20157 0] sampleValues [] = Some Approved
   \<and> onSubmitDecision [ValidDate 20158 0] sampleValues [] = Some PendingReview
   \<and> onSubmitDecision [ValidDate 20157 0] sampleValues [sampleConflict] = None"
  using auto_approval_decision [OF sampleInput_accepted, of "[ValidDate 20157 0]" "[]"]
    auto_approval_decision [OF sampleInput_accepted, of "[ValidDate 20158 0]" "[]"]
    auto_approval_decision [OF sampleInput_accepted, of "[ValidDate 20157 0]"
      "[sampleConflict]"]
  by (simp add: sampleInput_accepted sampleValues_minutes isDateAvailable_def)
    (simp add: sampleValues_def)

subsection \<open>The initial status\<close>

lemma persisted_onSubmit:
  "persisted (onSubmit c aw v) =
     (case conflictsResult aw of
        None \<Rightarrow> []
      | Some conflicts \<Rightarrow> if conflicts = [] then [newReservation c v] else [])"
  by (simp add: onSubmit_def split: option.splits)

text \<open>
  C3: every reservation the handler stores has the status approved when the decision
  at creation is Approved and pending otherwise, and so one of these two.
\<close>

theorem initial_status:
  assumes "r \<in> set (persisted (onSubmit c aw v))"
  shows "\<exists>conflicts. conflictsResult aw = Some conflicts
     \<and> res_status r =
         (if onSubmitDecision (availableDates c) v conflicts = Some Approved
          then approved else pending)
     \<and> (res_status r = approved \<or> res_status r = pending)"
  using assms
  by (auto simp: persisted_onSubmit newReservation_def onSubmitDecision_def
      split: option.splits if_splits)

theorem initial_status_witness:
  "newReservation sampleComponent sampleValues
     \<in> set (persisted (onSubmit sampleComponent
          \<lparr>conflictsResult = Some [], addReservationOk = True,
           sendAdminNotificationOk = True\<rparr> sampleValues))
   \<and> res_status (newReservation sampleComponent sampleValues) = approved"
proof -
  let ?aw = "\<lparr>conflictsResult = Some [], addReservationOk = True,
           sendAdminNotificationOk = True\<rparr>"
  have mem: "newReservation sampleComponent sampleValues
     \<in> set (persisted (onSubmit sampleComponent ?aw sampleValues))"
    by (simp add: persisted_onSubmit)
  from initial_status [OF mem] show ?thesis
    using mem by (simp add: onSubmitDecision_def sampleValues_autoApproved)
qed

subsection \<open>Conflicts stop the submission\<close>

text \<open>
  C8: when the conflict check resolves to a non-empty sequence, the handler only shows
  the conflicts and clears the submitting flag: it does not call addReservation and
  sends no admin notification.
\<close>

theorem conflicts_persist_nothing:
  assumes "conflictsResult aw = Some conflicts" and "conflicts \<noteq> []"
  shows "onSubmit c aw v =
           [SetIsSubmitting True,
            CheckConflicts \<lparr>chk_date = date v, chk_startTime = startTime v,
                            chk_endTime = endTime v,
                            chk_equipmentIds = selectedEquipment v\<rparr>,
            ToastConflicts conflicts,
            SetIsSubmitting False]
     \<and> persisted (onSubmit c aw v) = []
     \<and> notified (onSubmit c aw v) = []"
  using assms by (simp add: onSubmit_def)

theorem conflicts_persist_nothing_witness:
  "persisted (onSubmit sampleComponent
      \<lparr>conflictsResult = Some [sampleConflict], addReservationOk = True,
       sendAdminNotificationOk = True\<rparr> sampleValues) = []
   \<and> notified (onSubmit sampleComponent
      \<lparr>conflictsResult = Some [sampleConflict], addReservationOk = True,
       sendAdminNotificationOk = True\<rparr> sampleValues) = []"
  using conflicts_persist_nothing [of "\<lparr>conflictsResult = Some [sampleConflict],
      addReservationOk = True, sendAdminNotificationOk = True\<rparr>" "[sampleConflict]"
      sampleComponent sampleValues]
  by simp

subsection \<open>The schema establishes the engine's preconditions\<close>

text \<open>
  C9: every form value accepted by the schema has a start time, in minutes, strictly
  before its end time, a non-empty equipment list and two times that match the pattern
  with an hour from 7 to 19; so its candidate window has a positive duration and a
  non-empty resource set, and the conflict check cannot fail with InvalidWindow on it.
\<close>

theorem schema_meets_preconditions:
  assumes "formSchema data = Some v"
  shows "\<exists>s e hs ms he me w.
       timeMinutes (startTime v) = Some s \<and> timeMinutes (endTime v) = Some e \<and> s < e
     \<and> selectedEquipment v \<noteq> []
     \<and> timeRegex (startTime v) \<and> timeRegex (endTime v)
     \<and> hoursMinutes (startTime v) = Some (hs, ms) \<and> 7 \<le> hs \<and> hs \<le> 19
     \<and> hoursMinutes (endTime v) = Some (he, me) \<and> 7 \<le> he \<and> he \<le> 19
     \<and> candidateWindow v = Some w
     \<and> startMinute w < endMinute w \<and> resourceIds w \<noteq> []
     \<and> (\<forall>label existing. findConflicts label w existing \<noteq> Inl InvalidWindow)"
proof -
  note acc = formSchema_Some [OF assms]
  from refineOrder_minutes [OF acc(4)] obtain s e where
    se: "timeMinutes (startTime v) = Some s" "timeMinutes (endTime v) = Some e" "s < e"
    by blast
  from timeRegex_hoursMinutes [OF acc(1)] obtain hs ms where
    hs: "hoursMinutes (startTime v) = Some (hs, ms)" "7 \<le> hs" "hs \<le> 19"
    by blast
  from timeRegex_hoursMinutes [OF acc(2)] obtain he me where
    he: "hoursMinutes (endTime v) = Some (he, me)" "7 \<le> he" "he \<le> 19"
    by blast
  from acc(6) obtain day ms' where d: "date v = ValidDate day ms'"
    by blast
  define w where "w = \<lparr>w_date = day, startMinute = int s, endMinute = int e,
    resourceIds = selectedEquipment v, status = pending\<rparr>"
  have cw: "candidateWindow v = Some w"
    using se d by (simp add: candidateWindow_def w_def)
  have pre: "startMinute w < endMinute w" "resourceIds w \<noteq> []"
    using se(3) acc(3) by (simp_all add: w_def)
  have ok: "\<forall>label existing. findConflicts label w existing \<noteq> Inl InvalidWindow"
    using pre by (simp add: findConflicts_def)
  show ?thesis
    using se hs he acc(1,2,3) cw pre ok by blast
qed

theorem schema_meets_preconditions_witness:
  "formSchema sampleInput = Some sampleValues
   \<and> candidateWindow sampleValues =
       Some \<lparr>w_date = 20157, startMinute = 480, endMinute = 540,
             resourceIds = [''projector1''], status = pending\<rparr>
   \<and> (\<exists>w. candidateWindow sampleValues = Some w
          \<and> (\<forall>label existing. findConflicts label w existing \<noteq> Inl InvalidWindow))"
  using schema_meets_preconditions [OF sampleInput_accepted] sampleInput_accepted
    sampleValues_minutes
  by (auto simp: candidateWindow_def) (simp add: sampleValues_def)

section \<open>Properties of the availability engine\<close>

lemma set_sharedResources:
  "set (sharedResources c w) = set (resourceIds c) \<inter> set (resourceIds w)"
  by (auto simp: sharedResources_def)

lemma sharedResources_empty:
  "sharedResources c w = [] \<longleftrightarrow> \<not> (\<exists>r \<in> set (resourceIds c). r \<in> set (resourceIds w))"
proof -
  have "sharedResources c w = [] \<longleftrightarrow> set (sharedResources c w) = {}"
    by simp
  then show ?thesis
    unfolding set_sharedResources by blast
qed

lemma survives_overlaps_conflictsWith:
  "survives c w \<and> overlaps c w \<longleftrightarrow> conflictsWith c w"
  by (auto simp: survives_def overlaps_def conflictsWith_def blocking_def
      sharedResources_empty)

lemma emitConflicts_empty:
  "emitConflicts label c w = [] \<longleftrightarrow> sharedResources c w = []"
  by (simp add: emitConflicts_def)

lemma findConflicts_valid:
  assumes "startMinute c < endMinute c" and "resourceIds c \<noteq> []"
  shows "findConflicts label c existing =
     Inr (concat (map (emitConflicts label c) (filter (conflictsWith c) existing)))"
proof -
  have "filter (overlaps c) (filter (survives c) existing) = filter (conflictsWith c) existing"
    using survives_overlaps_conflictsWith [of c]
    by (simp add: conj_commute)
  then show ?thesis using assms by (simp add: findConflicts_def)
qed


lemma set_emitConflicts:
  "set (emitConflicts label c w) =
     (\<lambda>r. \<lparr>resourceId = r, rangeStart = startMinute w, rangeEnd = endMinute w,
             resourceLabel = label r\<rparr>) ` (set (resourceIds c) \<inter> set (resourceIds w))"
  by (simp add: emitConflicts_def set_sharedResources)

lemma emitConflicts_conflictsWith:
  "conflictsWith c w \<Longrightarrow> emitConflicts label c w \<noteq> []"
  by (simp add: emitConflicts_empty sharedResources_empty conflictsWith_def)

lemma concat_emit_empty:
  "concat (map (emitConflicts label c) (filter (conflictsWith c) existing)) = []
     \<longleftrightarrow> (\<forall>w \<in> set existing. \<not> conflictsWith c w)"
  using emitConflicts_conflictsWith [of c _ label]
  by (induction existing) auto

text \<open>
  C2: for a candidate of positive duration with resources, findConflicts returns the
  conflicts of exactly the existing windows that have the candidate's date, a blocking
  status (pending or approved), a resource in common with it and an overlapping
  half-open minute range, one conflict for each shared resource. So a window is reported
  if and only if it meets the four conditions, a window that ends where the other
  starts is never reported, and the result is empty when no existing window meets them.
\<close>

theorem findConflicts_reports:
  assumes "startMinute c < endMinute c" and "resourceIds c \<noteq> []"
  shows "\<exists>ks. findConflicts label c existing = Inr ks
     \<and> (\<forall>k. k \<in> set ks \<longleftrightarrow>
           (\<exists>w \<in> set existing. \<exists>r.
              w_date w = w_date c
              \<and> (status w = pending \<or> status w = approved)
              \<and> r \<in> set (resourceIds c) \<and> r \<in> set (resourceIds w)
              \<and> startMinute c < endMinute w \<and> startMinute w < endMinute c
              \<and> k = \<lparr>resourceId = r, rangeStart = startMinute w,
                      rangeEnd = endMinute w, resourceLabel = label r\<rparr>))
     \<and> (ks = [] \<longleftrightarrow> (\<forall>w \<in> set existing. \<not> conflictsWith c w))
     \<and> (findConflicts label c [w] \<noteq> Inr [] \<longleftrightarrow>
           w_date w = w_date c
           \<and> (status w = pending \<or> status w = approved)
           \<and> set (resourceIds c) \<inter> set (resourceIds w) \<noteq> {}
           \<and> startMinute c < endMinute w \<and> startMinute w < endMinute c)
     \<and> (status w \<in> {rejected, canceled, in_progress, completed}
           \<longrightarrow> findConflicts label c [w] = Inr [])
     \<and> (endMinute w = startMinute c \<or> endMinute c = startMinute w
           \<longrightarrow> findConflicts label c [w] = Inr [])"
proof -
  let ?ks = "concat (map (emitConflicts label c) (filter (conflictsWith c) existing))"
  have res: "findConflicts label c existing = Inr ?ks"
    using assms by (rule findConflicts_valid)
  have mem: "\<forall>k. k \<in> set ?ks \<longleftrightarrow>
           (\<exists>w \<in> set existing. \<exists>r.
              w_date w = w_date c
              \<and> (status w = pending \<or> status w = approved)
              \<and> r \<in> set (resourceIds c) \<and> r \<in> set (resourceIds w)
              \<and> startMinute c < endMinute w \<and> startMinute w < endMinute c
              \<and> k = \<lparr>resourceId = r, rangeStart = startMinute w,
                      rangeEnd = endMinute w, resourceLabel = label r\<rparr>)"
    by (auto simp: set_emitConflicts conflictsWith_def)
  have emp: "?ks = [] \<longleftrightarrow> (\<forall>w \<in> set existing. \<not> conflictsWith c w)"
    by (rule concat_emit_empty)
  have one: "findConflicts label c [w] = Inr (if conflictsWith c w then emitConflicts label c w else [])"
    using findConflicts_valid [OF assms, of label "[w]"] by simp
  have pair: "findConflicts label c [w] \<noteq> Inr [] \<longleftrightarrow> conflictsWith c w"
    using one emitConflicts_conflictsWith [of c w label] by simp
  have pair': "findConflicts label c [w] \<noteq> Inr [] \<longleftrightarrow>
           w_date w = w_date c
           \<and> (status w = pending \<or> status w = approved)
           \<and> set (resourceIds c) \<inter> set (resourceIds w) \<noteq> {}
           \<and> startMinute c < endMinute w \<and> startMinute w < endMinute c"
    unfolding pair by (auto simp: conflictsWith_def)
  have st: "status w \<in> {rejected, canceled, in_progress, completed}
           \<longrightarrow> findConflicts label c [w] = Inr []"
    using pair by (auto simp: conflictsWith_def)
  have bd: "endMinute w = startMinute c \<or> endMinute c = startMinute w
           \<longrightarrow> findConflicts label c [w] = Inr []"
    using pair by (auto simp: conflictsWith_def)
  show ?thesis
    using res mem emp pair' st bd by blast
qed

lemma sampleCandidate_valid:
  "startMinute sampleCandidate < endMinute sampleCandidate"
  "resourceIds sampleCandidate \<noteq> []"
  by (simp_all add: sampleCandidate_def)

theorem findConflicts_reports_witness:
  "startMinute sampleCandidate < endMinute sampleCandidate
   \<and> resourceIds sampleCandidate \<noteq> []
   \<and> findConflicts (\<lambda>r. r) sampleCandidate [sampleExisting] \<noteq> Inr []
   \<and> findConflicts (\<lambda>r. r) sampleCandidate
       [sampleExisting\<lparr>startMinute := 630, endMinute := 660\<rparr>] = Inr []
   \<and> findConflicts (\<lambda>r. r) sampleCandidate [sampleExisting\<lparr>status := rejected\<rparr>] = Inr []"
  using findConflicts_reports [OF sampleCandidate_valid, of "\<lambda>r. r" "[]" sampleExisting]
    findConflicts_reports [OF sampleCandidate_valid, of "\<lambda>r. r" "[]"
      "sampleExisting\<lparr>startMinute := 630, endMinute := 660\<rparr>"]
    findConflicts_reports [OF sampleCandidate_valid, of "\<lambda>r. r" "[]"
      "sampleExisting\<lparr>status := rejected\<rparr>"]
    sampleCandidate_valid
  by (simp add: sampleCandidate_def sampleExisting_def)

text \<open>
  C4: findConflicts fails with InvalidWindow exactly on a candidate whose start is not
  before its end or whose resource set is empty, and with no other error; so it fails on
  the zero-length candidate from 600 to 600 with the resource r1 and on every candidate
  without resources.
\<close>

theorem findConflicts_InvalidWindow:
  "(endMinute c \<le> startMinute c \<or> resourceIds c = []
      \<longrightarrow> findConflicts label c existing = Inl InvalidWindow)
   \<and> (\<forall>e. findConflicts label c existing = Inl e
      \<longrightarrow> e = InvalidWindow \<and> (endMinute c \<le> startMinute c \<or> resourceIds c = []))
   \<and> findConflicts label
        \<lparr>w_date = d, startMinute = 600, endMinute = 600, resourceIds = [''r1''],
         status = s\<rparr> existing = Inl InvalidWindow
   \<and> findConflicts label (c\<lparr>resourceIds := []\<rparr>) existing = Inl InvalidWindow"
  by (simp add: findConflicts_def)

theorem findConflicts_InvalidWindow_witness:
  "findConflicts (\<lambda>r. r) (sampleCandidate\<lparr>endMinute := 570\<rparr>) [sampleExisting]
     = Inl InvalidWindow
   \<and> findConflicts (\<lambda>r. r) (sampleCandidate\<lparr>resourceIds := []\<rparr>) [sampleExisting]
     = Inl InvalidWindow"
  using findConflicts_InvalidWindow [of "sampleCandidate\<lparr>endMinute := 570\<rparr>" "\<lambda>r. r"
      "[sampleExisting]"]
    findConflicts_InvalidWindow [of sampleCandidate "\<lambda>r. r" "[sampleExisting]"]
  by (simp add: sampleCandidate_def)

text \<open>
  C7: the overlap test gives the same verdict whichever of the two windows is taken as
  the candidate.
\<close>

theorem overlaps_symmetric: "overlaps a b = overlaps b a"
  by (auto simp: overlaps_def)

theorem overlaps_symmetric_witness:
  "overlaps sampleCandidate sampleExisting \<and> overlaps sampleExisting sampleCandidate"
  using overlaps_symmetric [of sampleCandidate sampleExisting]
  by (simp add: overlaps_def sampleCandidate_def sampleExisting_def)

section \<open>Properties of the admin pages\<close>

text \<open>
  C6: whatever the stored status of the selected request and whatever status the
  administrator picks in the select, pressing the update button stores the picked
  status, provided the write itself goes through; no pair of statuses is refused, and
  a completed request can be set back to pending.
\<close>

theorem any_status_transition:
  assumes "selectedRequest st = Some req"
    and "docs st (collectionName req, req_id req) = Some d"
    and "req_status d = s_from"
    and "updateDocOk aw"
  shows "docs (handleStatusChange aw (onValueChange s_to st)) (collectionName req, req_id req)
           = Some (d\<lparr>req_status := s_to\<rparr>)
     \<and> (createNotificationOk aw \<longrightarrow>
          selectedRequest (handleStatusChange aw (onValueChange s_to st))
            = Some (req\<lparr>req_status := s_to\<rparr>))
     \<and> s_to \<in> set statusItems"
  using assms
  by (cases s_to) (simp_all add: handleStatusChange_def onValueChange_def updateDoc_def
      statusItems_def)

lemma sampleAdmin_selected:
  "selectedRequest sampleAdmin = Some sampleRequest"
  "docs sampleAdmin (collectionName sampleRequest, req_id sampleRequest) = Some sampleRequest"
  "req_status sampleRequest = completed"
  by (simp_all add: sampleAdmin_def sampleRequest_def)

theorem any_status_transition_witness:
  "req_status sampleRequest = completed
   \<and> docs (handleStatusChange \<lparr>updateDocOk = True, createNotificationOk = True\<rparr>
        (onValueChange pending sampleAdmin)) (''purchases'', ''r1'')
       = Some (sampleRequest\<lparr>req_status := pending\<rparr>)"
  using any_status_transition [OF sampleAdmin_selected, of
      "\<lparr>updateDocOk = True, createNotificationOk = True\<rparr>" pending]
    sampleAdmin_selected(3)
  by (simp add: sampleRequest_def)

text \<open>
  C10: the options menu with the edit and delete items is rendered for a message if and
  only if a user is signed in, the message's userId is that user's uid and the message
  is not deleted; otherwise nothing is rendered.
\<close>

theorem edit_delete_offered_iff:
  "(messageMenu user msg = [Editar, Apagar] \<longleftrightarrow>
      (\<exists>u. user = Some u \<and> msg_userId msg = Some (uid u) \<and> isDeleted msg \<noteq> Some True))
   \<and> (messageMenu user msg = [] \<longleftrightarrow>
      \<not> (\<exists>u. user = Some u \<and> msg_userId msg = Some (uid u) \<and> isDeleted msg \<noteq> Some True))
   \<and> (canEditOrDelete user msg \<longleftrightarrow>
      (\<exists>u. user = Some u \<and> msg_userId msg = Some (uid u) \<and> isDeleted msg \<noteq> Some True))"
  by (auto simp: messageMenu_def canEditOrDelete_def truthy_def split: option.splits)

theorem edit_delete_offered_iff_witness:
  "messageMenu (Some \<lparr>uid = ''u1'', displayName = None, email = None\<rparr>)
      \<lparr>msg_id = ''m1'', msg_userId = Some ''u1'', isDeleted = None\<rparr> = [Editar, Apagar]
   \<and> messageMenu (Some \<lparr>uid = ''u1'', displayName = None, email = None\<rparr>)
      \<lparr>msg_id = ''m2'', msg_userId = Some ''u2'', isDeleted = None\<rparr> = []
   \<and> messageMenu (Some \<lparr>uid = ''u1'', displayName = None, email = None\<rparr>)
      \<lparr>msg_id = ''m3'', msg_userId = Some ''u1'', isDeleted = Some True\<rparr> = []
   \<and> messageMenu None \<lparr>msg_id = ''m1'', msg_userId = Some ''u1'', isDeleted = None\<rparr> = []"
  using edit_delete_offered_iff [of "Some \<lparr>uid = ''u1'', displayName = None, email = None\<rparr>"
      "\<lparr>msg_id = ''m1'', msg_userId = Some ''u1'', isDeleted = None\<rparr>"]
    edit_delete_offered_iff [of "Some \<lparr>uid = ''u1'', displayName = None, email = None\<rparr>"
      "\<lparr>msg_id = ''m2'', msg_userId = Some ''u2'', isDeleted = None\<rparr>"]
    edit_delete_offered_iff [of "Some \<lparr>uid = ''u1'', displayName = None, email = None\<rparr>"
      "\<lparr>msg_id = ''m3'', msg_userId = Some ''u1'', isDeleted = Some True\<rparr>"]
    edit_delete_offered_iff [of None
      "\<lparr>msg_id = ''m1'', msg_userId = Some ''u1'', isDeleted = None\<rparr>"]
  by simp


end
